theory Spec2Isabelle
  imports Main "HOL-Library.Multiset" "HOL-Library.List_Lexorder"
begin

section \<open>Python values shared by both programs\<close>

text \<open>
  A Python \<^verbatim>\<open>str\<close> is a sequence of Unicode code points; it is modelled as the list of
  their numbers, so that the two labels of the review tool (which are not ASCII) and
  Python's \<^verbatim>\<open>str.strip\<close> can be written as the interpreter has them. Strings are
  compared as Python compares them: lexicographically by code point.
\<close>

type_synonym pystr = "nat list"

definition str_of :: "string \<Rightarrow> pystr" where
  "str_of s = map of_char s"

text \<open>
  A Python \<^verbatim>\<open>dict\<close> keeps its keys in insertion order, and assigning to a key that is
  present replaces the value where the key stands. It is modelled as an association list
  whose keys are distinct.
\<close>

type_synonym ('k, 'v) dict = "('k \<times> 'v) list"

fun dict_set :: "'k \<Rightarrow> 'v \<Rightarrow> ('k, 'v) dict \<Rightarrow> ('k, 'v) dict" where
  "dict_set k v [] = [(k, v)]"
| "dict_set k v ((k', v') # d) =
     (if k' = k then (k, v) # d else (k', v') # dict_set k v d)"

definition dict_keys :: "('k, 'v) dict \<Rightarrow> 'k list" where
  "dict_keys d = map fst d"

definition dict_has :: "'k \<Rightarrow> ('k, 'v) dict \<Rightarrow> bool" where
  "dict_has k d \<longleftrightarrow> k \<in> set (dict_keys d)"

definition dict_remove :: "'k \<Rightarrow> ('k, 'v) dict \<Rightarrow> ('k, 'v) dict" where
  "dict_remove k d = filter (\<lambda>kv. fst kv \<noteq> k) d"

datatype py_error =
  ValueError | IndexError | FileNotFoundError | UnicodeDecodeError | KeyError | ParseError

text \<open>
  \<^verbatim>\<open>xs[i]\<close>: an index from \<open>0\<close> up to the length reads from the front, an index
  from minus the length up to \<open>-1\<close> reads from the back, and any other index raises.
\<close>

definition py_index :: "'a list \<Rightarrow> int \<Rightarrow> py_error + 'a" where
  "py_index xs i =
     (if 0 \<le> i \<and> i < int (length xs) then Inr (xs ! nat i)
      else if i < 0 \<and> 0 \<le> int (length xs) + i then Inr (xs ! nat (int (length xs) + i))
      else Inl IndexError)"

section \<open>The review tool: building the image records\<close>

text \<open>
  The parsed annotation document. Only the fields the tool reads are kept; a document
  in which one of them is missing stops the program at start-up and is not modelled.
  Box coordinates and areas are taken as integers, and a box as the four numbers the
  display loop unpacks.
\<close>

record image =
  img_id :: int
  img_file_name :: pystr

record annotation =
  ann_id :: int
  ann_image_id :: int
  ann_category_id :: int
  ann_bbox :: "int \<times> int \<times> int \<times> int"
  ann_area :: int
  ann_iscrowd :: int

record coco_doc =
  doc_images :: "image list"
  doc_annotations :: "annotation list"

record image_record =
  ir_id :: int
  ir_file_name :: pystr
  ir_annotations :: "annotation list"

text \<open>\<^verbatim>\<open>{img["id"]: img["file_name"] for img in images}\<close>\<close>

definition img_id_to_name :: "image list \<Rightarrow> (int, pystr) dict" where
  "img_id_to_name imgs = foldl (\<lambda>d img. dict_set (img_id img) (img_file_name img) d) [] imgs"

text \<open>
  One round of the grouping loop: the key is created with an empty list when it is new,
  then the annotation is appended in place to the list stored under the key.
\<close>

definition group_step :: "(int, annotation list) dict \<Rightarrow> annotation \<Rightarrow> (int, annotation list) dict" where
  "group_step d ann =
     (let k = ann_image_id ann;
          d1 = (if dict_has k d then d else dict_set k [] d)
      in map (\<lambda>(k', l). if k' = k then (k', l @ [ann]) else (k', l)) d1)"

definition anns_by_img :: "annotation list \<Rightarrow> (int, annotation list) dict" where
  "anns_by_img anns = foldl group_step [] anns"

definition dict_get_default :: "('k, 'v) dict \<Rightarrow> 'k \<Rightarrow> 'v \<Rightarrow> 'v" where
  "dict_get_default d k dflt = (case map_of d k of None \<Rightarrow> dflt | Some v \<Rightarrow> v)"

definition load_annotations :: "coco_doc \<Rightarrow> image_record list \<Rightarrow> image_record list" where
  "load_annotations doc image_info =
     (let names = img_id_to_name (doc_images doc);
          groups = anns_by_img (doc_annotations doc)
      in image_info @
         map (\<lambda>(i, file_name).
                \<lparr>ir_id = i, ir_file_name = file_name,
                 ir_annotations = dict_get_default groups i []\<rparr>) names)"

section \<open>The review tool: state, check boxes and navigation\<close>

text \<open>The two labels, \<^verbatim>\<open>"\<close>U+7A00 U+758F\<^verbatim>\<open>"\<close> (sparse) and \<^verbatim>\<open>"\<close>U+5BC6 U+96C6\<^verbatim>\<open>"\<close> (dense).\<close>

definition SPARSE :: pystr where
  "SPARSE = [31232, 30095]"

definition DENSE :: pystr where
  "DENSE = [23494, 38598]"

text \<open>
  The fields of the window that the operations read or write. The two progress fields
  are the arguments \<^verbatim>\<open>update_progress\<close> hands to the progress bar; what the bar
  displays from them is the toolkit's business.
\<close>

record annotator =
  image_info :: "image_record list"
  current_index :: int
  classifications :: "(pystr, pystr) dict"
  sparse_check :: bool
  dense_check :: bool
  progress_maximum :: nat
  progress_value :: nat

datatype box = SparseBox | DenseBox

fun other_box :: "box \<Rightarrow> box" where
  "other_box SparseBox = DenseBox"
| "other_box DenseBox = SparseBox"

fun isChecked :: "box \<Rightarrow> annotator \<Rightarrow> bool" where
  "isChecked SparseBox s = sparse_check s"
| "isChecked DenseBox s = dense_check s"

fun put_checked :: "box \<Rightarrow> bool \<Rightarrow> annotator \<Rightarrow> annotator" where
  "put_checked SparseBox b s = s\<lparr>sparse_check := b\<rparr>"
| "put_checked DenseBox b s = s\<lparr>dense_check := b\<rparr>"

text \<open>
  \<^verbatim>\<open>setChecked\<close> is the toolkit's: it does nothing when the box already has the
  requested state, and otherwise stores it and emits \<^verbatim>\<open>stateChanged\<close>, which runs
  the connected slot \<^verbatim>\<open>single_check\<close> at once. The slot unchecks the other box when
  its own box is checked.
\<close>

function setChecked :: "box \<Rightarrow> bool \<Rightarrow> annotator \<Rightarrow> annotator"
  and single_check :: "box \<Rightarrow> annotator \<Rightarrow> annotator" where
  "setChecked bx b s =
     (if isChecked bx s = b then s else single_check bx (put_checked bx b s))"
| "single_check checked_box s =
     (if isChecked checked_box s then setChecked (other_box checked_box) False s else s)"
  by pat_completeness auto
termination
  by (relation "measure (\<lambda>x. case x of
        Inl (bx, b, s) \<Rightarrow> (if isChecked bx s = b then 0 else if b then 4 else 2)
      | Inr (bx, s) \<Rightarrow> (if isChecked bx s then 3 else 1))")
     (auto, (case_tac bx; simp)+)

declare setChecked.simps [simp del] single_check.simps [simp del]

text \<open>A click of the user on a check box toggles it.\<close>

definition click :: "box \<Rightarrow> annotator \<Rightarrow> annotator" where
  "click bx s = setChecked bx (\<not> isChecked bx s) s"

text \<open>
  \<^verbatim>\<open>show_image\<close>, as far as the state goes: it returns early when the cursor is out
  of range or the image file cannot be loaded (\<open>image_loads\<close> says whether
  \<^verbatim>\<open>cv2.imread\<close> succeeds on a file name), and otherwise sets the check boxes
  from the stored classification. The drawing itself changes no field.
\<close>

definition show_image :: "(pystr \<Rightarrow> bool) \<Rightarrow> annotator \<Rightarrow> annotator" where
  "show_image image_loads s =
     (if current_index s < 0 \<or> current_index s \<ge> int (length (image_info s)) then s
      else
        let file_name = ir_file_name (image_info s ! nat (current_index s)) in
        if \<not> image_loads file_name then s
        else
          (case map_of (classifications s) file_name of
             Some classification \<Rightarrow>
               setChecked DenseBox (classification = DENSE)
                 (setChecked SparseBox (classification = SPARSE) s)
           | None \<Rightarrow> setChecked DenseBox False (setChecked SparseBox False s)))"

definition show_prev_image :: "(pystr \<Rightarrow> bool) \<Rightarrow> annotator \<Rightarrow> annotator" where
  "show_prev_image image_loads s =
     show_image image_loads (s\<lparr>current_index := max 0 (current_index s - 1)\<rparr>)"

definition show_next_image :: "(pystr \<Rightarrow> bool) \<Rightarrow> annotator \<Rightarrow> annotator" where
  "show_next_image image_loads s =
     show_image image_loads
       (s\<lparr>current_index := min (int (length (image_info s)) - 1) (current_index s + 1)\<rparr>)"

definition update_progress :: "annotator \<Rightarrow> annotator" where
  "update_progress s =
     (let total = length (image_info s);
          classified = length (classifications s)
      in s\<lparr>progress_maximum := total, progress_value := classified\<rparr>)"

definition save_classification :: "annotator \<Rightarrow> py_error + annotator" where
  "save_classification s =
     (case py_index (image_info s) (current_index s) of
        Inl e \<Rightarrow> Inl e
      | Inr img_info \<Rightarrow>
          let file_name = ir_file_name img_info;
              s' = (if sparse_check s then
                      s\<lparr>classifications := dict_set file_name SPARSE (classifications s)\<rparr>
                    else if dense_check s then
                      s\<lparr>classifications := dict_set file_name DENSE (classifications s)\<rparr>
                    else if dict_has file_name (classifications s) then
                      s\<lparr>classifications := dict_remove file_name (classifications s)\<rparr>
                    else s)
          in Inr (update_progress s'))"

definition quick_classify :: "pystr \<Rightarrow> annotator \<Rightarrow> py_error + annotator" where
  "quick_classify classification s =
     save_classification
       (if classification = SPARSE
        then setChecked DenseBox False (setChecked SparseBox True s)
        else setChecked DenseBox True (setChecked SparseBox False s))"

definition save_and_next :: "(pystr \<Rightarrow> bool) \<Rightarrow> annotator \<Rightarrow> py_error + annotator" where
  "save_and_next image_loads s =
     (case save_classification s of
        Inl e \<Rightarrow> Inl e
      | Inr s' \<Rightarrow> Inr (show_next_image image_loads s'))"

section \<open>The review tool: exporting and importing the progress file\<close>

text \<open>The characters \<^verbatim>\<open>str.strip()\<close> removes: those for which \<^verbatim>\<open>str.isspace\<close> holds.\<close>

definition is_space :: "nat \<Rightarrow> bool" where
  "is_space c \<longleftrightarrow>
     (9 \<le> c \<and> c \<le> 13) \<or> (28 \<le> c \<and> c \<le> 32) \<or> c = 133 \<or> c = 160 \<or> c = 5760 \<or>
     (8192 \<le> c \<and> c \<le> 8202) \<or> c = 8232 \<or> c = 8233 \<or> c = 8239 \<or> c = 8287 \<or> c = 12288"

definition strip :: "pystr \<Rightarrow> pystr" where
  "strip s = rev (dropWhile is_space (rev (dropWhile is_space s)))"

text \<open>\<^verbatim>\<open>s.split(sep)\<close> for a one-character separator: every occurrence cuts.\<close>

fun split_acc :: "nat \<Rightarrow> pystr \<Rightarrow> pystr \<Rightarrow> pystr list" where
  "split_acc sep cur [] = [cur]"
| "split_acc sep cur (c # cs) =
     (if c = sep then cur # split_acc sep [] cs else split_acc sep (cur @ [c]) cs)"

definition split :: "nat \<Rightarrow> pystr \<Rightarrow> pystr list" where
  "split sep s = split_acc sep [] s"

definition COLON :: nat where
  "COLON = 58"

text \<open>
  The body of the \<^verbatim>\<open>for line in f\<close> loop over the lines read so far. Unpacking the
  pieces into two names raises \<^verbatim>\<open>ValueError\<close> unless there are exactly two; the
  exception leaves the loop with the entries of the earlier lines already stored, so the
  dictionary is returned in both cases.
\<close>

fun import_lines :: "pystr list \<Rightarrow> (pystr, pystr) dict \<Rightarrow> py_error option \<times> (pystr, pystr) dict" where
  "import_lines [] d = (None, d)"
| "import_lines (line # lines) d =
     (if COLON \<in> set line then
        (case split COLON (strip line) of
           [image_name, classification] \<Rightarrow>
             import_lines lines (dict_set (strip image_name) (strip classification) d)
         | _ \<Rightarrow> (Some ValueError, d))
      else import_lines lines d)"

text \<open>
  Reading a text file line by line in Python's default mode: a line ends at
  \<^verbatim>\<open>\n\<close>, \<^verbatim>\<open>\r\n\<close> or \<^verbatim>\<open>\r\<close>, each handed over as \<^verbatim>\<open>\n\<close>; the last line may have
  no line end.
\<close>

fun lines_acc :: "pystr \<Rightarrow> pystr \<Rightarrow> pystr list" where
  "lines_acc cur [] = (if cur = [] then [] else [cur])"
| "lines_acc cur (c # cs) =
     (if c = 10 then (cur @ [10]) # lines_acc [] cs
      else if c = 13 then
        (case cs of
           [] \<Rightarrow> [cur @ [10]]
         | c' # cs' \<Rightarrow>
             if c' = 10 then (cur @ [10]) # lines_acc [] cs'
             else (cur @ [10]) # lines_acc [] cs)
      else lines_acc (cur @ [c]) cs)"

definition read_lines :: "pystr \<Rightarrow> pystr list" where
  "read_lines text = lines_acc [] text"

text \<open>
  What opening and reading the chosen file can do: the file cannot be opened; it decodes
  to a text; or the decoder fails after it has handed over some lines.
\<close>

datatype text_file = NoSuchFile | Text pystr | Broken "pystr list"

text \<open>
  \<^verbatim>\<open>import_progress\<close>. The argument is \<open>None\<close> when the file dialog is cancelled.
  Every exception is caught and printed; the result carries it next to the state.
\<close>

definition import_progress ::
  "(pystr \<Rightarrow> bool) \<Rightarrow> text_file option \<Rightarrow> annotator \<Rightarrow> py_error option \<times> annotator" where
  "import_progress image_loads chosen s =
     (case chosen of
        None \<Rightarrow> (None, s)
      | Some NoSuchFile \<Rightarrow> (Some FileNotFoundError, s)
      | Some (Text text) \<Rightarrow>
          (case import_lines (read_lines text) (classifications s) of
             (Some e, d) \<Rightarrow> (Some e, s\<lparr>classifications := d\<rparr>)
           | (None, d) \<Rightarrow>
               (None, show_image image_loads (update_progress (s\<lparr>classifications := d\<rparr>))))
      | Some (Broken lines) \<Rightarrow>
          (case import_lines lines (classifications s) of
             (Some e, d) \<Rightarrow> (Some e, s\<lparr>classifications := d\<rparr>)
           | (None, d) \<Rightarrow> (Some UnicodeDecodeError, s\<lparr>classifications := d\<rparr>)))"

text \<open>\<^verbatim>\<open>export_results\<close>: the text written to the chosen file, one line per entry.\<close>

definition export_line :: "pystr \<times> pystr \<Rightarrow> pystr" where
  "export_line kv = fst kv @ [COLON, 32] @ snd kv @ [10]"

definition export_text :: "(pystr, pystr) dict \<Rightarrow> pystr" where
  "export_text d = concat (map export_line d)"

definition export_results :: "bool \<Rightarrow> annotator \<Rightarrow> text_file option" where
  "export_results file_chosen s =
     (if \<not> file_chosen then None else Some (Text (export_text (classifications s))))"

section \<open>The review tool: start-up and the event loop\<close>

text \<open>
  The constructor: empty fields, \<^verbatim>\<open>load_annotations\<close>, \<^verbatim>\<open>init_ui\<close> (which
  creates the two boxes unchecked and calls \<^verbatim>\<open>update_progress\<close>), then
  \<^verbatim>\<open>show_image\<close>.
\<close>

definition init :: "(pystr \<Rightarrow> bool) \<Rightarrow> coco_doc \<Rightarrow> annotator" where
  "init image_loads doc =
     show_image image_loads
       (update_progress
          \<lparr>image_info = load_annotations doc [], current_index = 0, classifications = [],
           sparse_check = False, dense_check = False,
           progress_maximum = 0, progress_value = 0\<rparr>)"

text \<open>
  The user's actions, each bound to one handler: a click on a check box, the keys
  \<^verbatim>\<open>1\<close> and \<^verbatim>\<open>2\<close>, the space key or the save button, the arrow keys or the
  previous and next buttons, and the import button with what the chosen file holds.
\<close>

datatype event =
  Click box | Key1 | Key2 | SaveAndNext | ShowPrev | ShowNext | Import "text_file option"

fun step :: "(pystr \<Rightarrow> bool) \<Rightarrow> event \<Rightarrow> annotator \<Rightarrow> py_error + annotator" where
  "step image_loads (Click bx) s = Inr (click bx s)"
| "step image_loads Key1 s = quick_classify SPARSE s"
| "step image_loads Key2 s = quick_classify DENSE s"
| "step image_loads SaveAndNext s = save_and_next image_loads s"
| "step image_loads ShowPrev s = Inr (show_prev_image image_loads s)"
| "step image_loads ShowNext s = Inr (show_next_image image_loads s)"
| "step image_loads (Import chosen) s = Inr (snd (import_progress image_loads chosen s))"

text \<open>A run stops at the first exception that no handler catches.\<close>

fun run :: "(pystr \<Rightarrow> bool) \<Rightarrow> event list \<Rightarrow> annotator \<Rightarrow> py_error + annotator" where
  "run image_loads [] s = Inr s"
| "run image_loads (e # es) s =
     (case step image_loads e s of
        Inl err \<Rightarrow> Inl err
      | Inr s' \<Rightarrow> run image_loads es s')"

section \<open>The converter\<close>

text \<open>
  The objects the converter builds are Python dictionaries with string keys, written to
  the output file as they stand; they are kept as dictionaries, so that which keys an
  object has when it is written is a property of the model.
\<close>

datatype pyval = PInt int | PNone | PStr pystr | PList "pyval list"

type_synonym pyobj = "(string, pyval) dict"

text \<open>
  The input tree. An annotation file is absent, or cannot be read as the converter reads
  it (not XML, an element missing, a number that \<^verbatim>\<open>int\<close> rejects: any of these raises
  and ends the conversion), or holds the size and the objects.
\<close>

record voc_object =
  obj_name :: pystr
  obj_difficult :: int
  xmin :: int
  ymin :: int
  xmax :: int
  ymax :: int

record voc_xml =
  xml_width :: int
  xml_height :: int
  xml_objects :: "voc_object list"

datatype xml_file = NoXml | BadXml | Xml voc_xml

record voc_tree =
  image_exists :: "pystr \<Rightarrow> bool"
  annotation_file :: "pystr \<Rightarrow> xml_file"

text \<open>The variables of one split's pass over the images.\<close>

record build =
  b_images :: "pyobj list"
  b_annotations :: "pyobj list"
  b_category_names :: "pystr list"
  b_annotation_id :: int

text \<open>
  The loop over the objects of one annotation file. \<open>b_category_names\<close> is the Python
  set, kept as a list without repetitions in the order of first insertion.
\<close>

fun object_loop :: "pyval \<Rightarrow> voc_object list \<Rightarrow> build \<Rightarrow> build" where
  "object_loop image_id_val [] b = b"
| "object_loop image_id_val (obj # objs) b =
     (let category_name = obj_name obj;
          difficult = obj_difficult obj;
          w = xmax obj - xmin obj;
          h = ymax obj - ymin obj;
          annotation =
            [(''id'', PInt (b_annotation_id b)),
             (''image_id'', image_id_val),
             (''category_id'', PNone),
             (''bbox'', PList [PInt (xmin obj), PInt (ymin obj), PInt w, PInt h]),
             (''area'', PInt (w * h)),
             (''iscrowd'', PInt 0),
             (''difficult'', PInt difficult),
             (''category_name'', PStr category_name)]
      in object_loop image_id_val objs
           (b\<lparr>b_annotations := b_annotations b @ [annotation],
              b_category_names := List.insert category_name (b_category_names b),
              b_annotation_id := b_annotation_id b + 1\<rparr>))"

definition JPG :: pystr where
  "JPG = str_of ''.jpg''"

fun image_loop :: "voc_tree \<Rightarrow> pystr list \<Rightarrow> build \<Rightarrow> py_error + build" where
  "image_loop t [] b = Inr b"
| "image_loop t (image_id # image_ids) b =
     (if \<not> image_exists t image_id \<or> annotation_file t image_id = NoXml
      then image_loop t image_ids b
      else
        (case annotation_file t image_id of
           NoXml \<Rightarrow> image_loop t image_ids b
         | BadXml \<Rightarrow> Inl ParseError
         | Xml root \<Rightarrow>
             let img =
                   [(''id'', PInt (int (length (b_images b)) + 1)),
                    (''file_name'', PStr (image_id @ JPG)),
                    (''width'', PInt (xml_width root)),
                    (''height'', PInt (xml_height root))];
                 b1 = b\<lparr>b_images := b_images b @ [img]\<rparr>
             in image_loop t image_ids
                  (object_loop (PInt (int (length (b_images b)) + 1)) (xml_objects root) b1)))"

text \<open>The loop that numbers the sorted names, with its counter \<^verbatim>\<open>category_id\<close>.\<close>

fun category_loop :: "int \<Rightarrow> pystr list \<Rightarrow> pyobj list" where
  "category_loop category_id [] = []"
| "category_loop category_id (category_name # names) =
     [(''id'', PInt category_id),
      (''name'', PStr category_name),
      (''supercategory'', PStr (str_of ''none''))]
     # category_loop (category_id + 1) names"

text \<open>\<^verbatim>\<open>[cat['id'] for cat in categories if cat['name'] == category_name]\<close>\<close>

fun matching_ids :: "pyobj list \<Rightarrow> pyval \<Rightarrow> py_error + pyval list" where
  "matching_ids [] category_name = Inr []"
| "matching_ids (cat # cats) category_name =
     (case map_of cat ''name'' of
        None \<Rightarrow> Inl KeyError
      | Some n \<Rightarrow>
          if n = category_name then
            (case map_of cat ''id'' of
               None \<Rightarrow> Inl KeyError
             | Some i \<Rightarrow>
                 (case matching_ids cats category_name of
                    Inl e \<Rightarrow> Inl e
                  | Inr ids \<Rightarrow> Inr (i # ids)))
          else matching_ids cats category_name)"

text \<open>
  The pass that fills in \<^verbatim>\<open>category_id\<close> and deletes \<^verbatim>\<open>category_name\<close>.
  Taking element 0 of an empty list raises \<^verbatim>\<open>IndexError\<close>.
\<close>

fun resolve_loop :: "pyobj list \<Rightarrow> pyobj list \<Rightarrow> py_error + pyobj list" where
  "resolve_loop categories [] = Inr []"
| "resolve_loop categories (ann # anns) =
     (case map_of ann ''category_name'' of
        None \<Rightarrow> Inl KeyError
      | Some category_name \<Rightarrow>
          (case matching_ids categories category_name of
             Inl e \<Rightarrow> Inl e
           | Inr [] \<Rightarrow> Inl IndexError
           | Inr (cid # _) \<Rightarrow>
               (case resolve_loop categories anns of
                  Inl e \<Rightarrow> Inl e
                | Inr rest \<Rightarrow>
                    Inr (dict_remove ''category_name'' (dict_set ''category_id'' cid ann) # rest))))"

record coco_data =
  out_images :: "pyobj list"
  out_annotations :: "pyobj list"
  out_categories :: "pyobj list"

text \<open>
  The body of the loop over the splits, from the list of image ids read from the split
  file to the document that is written. The order in which Python iterates over a set
  of strings is not fixed (it changes with the hash seed of the run): \<open>set_order\<close>
  stands for it, turning the names in order of first insertion into the order
  \<^verbatim>\<open>list(category_names)\<close> yields. Copying the image files changes none of the
  values and is left out.
\<close>

definition convert_split ::
  "(pystr list \<Rightarrow> pystr list) \<Rightarrow> voc_tree \<Rightarrow> pystr list \<Rightarrow> py_error + coco_data" where
  "convert_split set_order t image_ids =
     (case image_loop t image_ids
             \<lparr>b_images = [], b_annotations = [], b_category_names = [], b_annotation_id = 1\<rparr> of
        Inl e \<Rightarrow> Inl e
      | Inr b \<Rightarrow>
          let categories = category_loop 1 (sort (set_order (b_category_names b))) in
          (case resolve_loop categories (b_annotations b) of
             Inl e \<Rightarrow> Inl e
           | Inr annotations \<Rightarrow>
               Inr \<lparr>out_images = b_images b, out_annotations = annotations,
                    out_categories = categories\<rparr>))"

text \<open>
  \<^verbatim>\<open>voc_to_coco\<close>: the two splits in turn; \<open>split_file\<close> gives the image ids listed in
  a split's index file, or \<open>None\<close> when the file cannot be opened. The first exception
  ends the run.
\<close>

fun voc_to_coco_sets ::
  "(pystr list \<Rightarrow> pystr list) \<Rightarrow> voc_tree \<Rightarrow> (string \<Rightarrow> pystr list option) \<Rightarrow> string list
     \<Rightarrow> py_error + (string \<times> coco_data) list" where
  "voc_to_coco_sets set_order t split_file [] = Inr []"
| "voc_to_coco_sets set_order t split_file (set_name # sets) =
     (case split_file set_name of
        None \<Rightarrow> Inl FileNotFoundError
      | Some image_ids \<Rightarrow>
          (case convert_split set_order t image_ids of
             Inl e \<Rightarrow> Inl e
           | Inr coco \<Rightarrow>
               (case voc_to_coco_sets set_order t split_file sets of
                  Inl e \<Rightarrow> Inl e
                | Inr rest \<Rightarrow> Inr ((set_name, coco) # rest))))"

definition voc_to_coco ::
  "(pystr list \<Rightarrow> pystr list) \<Rightarrow> voc_tree \<Rightarrow> (string \<Rightarrow> pystr list option)
     \<Rightarrow> py_error + (string \<times> coco_data) list" where
  "voc_to_coco set_order t split_file =
     voc_to_coco_sets set_order t split_file [''train'', ''val'']"

section \<open>Predicates and example inputs of the properties\<close>

text \<open>
  A valid document: the image ids are unique, and every annotation refers to an image of
  the document.
\<close>

definition valid_coco :: "coco_doc \<Rightarrow> bool" where
  "valid_coco doc \<longleftrightarrow>
     distinct (map img_id (doc_images doc)) \<and>
     (\<forall>a \<in> set (doc_annotations doc). ann_image_id a \<in> set (map img_id (doc_images doc)))"

definition example_doc :: coco_doc where
  "example_doc =
     \<lparr>doc_images =
        [\<lparr>img_id = 7, img_file_name = str_of ''a.jpg''\<rparr>,
         \<lparr>img_id = 3, img_file_name = str_of ''b.jpg''\<rparr>],
      doc_annotations =
        [\<lparr>ann_id = 1, ann_image_id = 3, ann_category_id = 1, ann_bbox = (0, 0, 4, 5),
          ann_area = 20, ann_iscrowd = 0\<rparr>,
         \<lparr>ann_id = 2, ann_image_id = 7, ann_category_id = 2, ann_bbox = (1, 1, 2, 2),
          ann_area = 4, ann_iscrowd = 0\<rparr>,
         \<lparr>ann_id = 3, ann_image_id = 3, ann_category_id = 1, ann_bbox = (2, 2, 3, 3),
          ann_area = 9, ann_iscrowd = 0\<rparr>]\<rparr>"

(*LEMMAS*)
section \<open>Dictionaries\<close>

lemma map_of_dict_set: "map_of (dict_set k v d) = (map_of d)(k \<mapsto> v)"
  by (induction d) (auto simp: fun_eq_iff)

lemma dict_set_fresh: "k \<notin> fst ` set d \<Longrightarrow> dict_set k v d = d @ [(k, v)]"
  by (induction d) auto

lemma keys_dict_set: "fst ` set (dict_set k v d) = insert k (fst ` set d)"
proof -
  have "fst ` set (dict_set k v d) = dom (map_of (dict_set k v d))" by (simp add: dom_map_of_conv_image_fst)
  also have "\<dots> = insert k (dom (map_of d))" by (simp add: map_of_dict_set)
  finally show ?thesis by (simp add: dom_map_of_conv_image_fst)
qed

lemma distinct_dict_set: "distinct (map fst d) \<Longrightarrow> distinct (map fst (dict_set k v d))"
  by (induction d) (auto simp: keys_dict_set)

section \<open>Building the image records: one record per image, no annotation lost\<close>

lemma foldl_names_distinct:
  "distinct (map fst d @ map img_id imgs) \<Longrightarrow>
   foldl (\<lambda>d img. dict_set (img_id img) (img_file_name img) d) d imgs
     = d @ map (\<lambda>i. (img_id i, img_file_name i)) imgs"
proof (induction imgs arbitrary: d)
  case Nil
  then show ?case by simp
next
  case (Cons i imgs)
  from Cons.prems have fresh: "img_id i \<notin> fst ` set d" by auto
  have step: "dict_set (img_id i) (img_file_name i) d = d @ [(img_id i, img_file_name i)]"
    using fresh by (rule dict_set_fresh)
  from Cons.prems have "distinct (map fst (d @ [(img_id i, img_file_name i)]) @ map img_id imgs)"
    by auto
  from Cons.IH[OF this] show ?case by (simp add: step)
qed

lemma img_id_to_name_distinct:
  "distinct (map img_id imgs) \<Longrightarrow> img_id_to_name imgs = map (\<lambda>i. (img_id i, img_file_name i)) imgs"
  using foldl_names_distinct[of "[]" imgs] by (simp add: img_id_to_name_def)

lemma map_of_append_inplace:
  "map_of (map (\<lambda>(k', l). if k' = k then (k', l @ [x]) else (k', l)) d) j
     = (if j = k then map_option (\<lambda>l. l @ [x]) (map_of d j) else map_of d j)"
  by (induction d) auto

lemma dict_has_map_of: "dict_has k d \<longleftrightarrow> map_of d k \<noteq> None"
  by (simp add: dict_has_def dict_keys_def map_of_eq_None_iff)

lemma map_of_group_step:
  "map_of (group_step d a) j =
     (if j = ann_image_id a then Some (dict_get_default d j [] @ [a]) else map_of d j)"
  by (auto simp: group_step_def Let_def map_of_append_inplace map_of_dict_set dict_has_map_of
      dict_get_default_def split: option.splits)

lemma get_anns_by_img:
  "dict_get_default (anns_by_img anns) j [] = filter (\<lambda>a. ann_image_id a = j) anns"
proof (induction anns rule: rev_induct)
  case Nil
  show ?case by (simp add: anns_by_img_def dict_get_default_def)
next
  case (snoc a anns)
  have "anns_by_img (anns @ [a]) = group_step (anns_by_img anns) a"
    by (simp add: anns_by_img_def)
  then show ?case using snoc.IH
    by (simp add: dict_get_default_def map_of_group_step)
qed

lemma mset_partition_by_id:
  "distinct ids \<Longrightarrow> \<forall>a \<in> set anns. ann_image_id a \<in> set ids \<Longrightarrow>
   mset (concat (map (\<lambda>j. filter (\<lambda>a. ann_image_id a = j) anns) ids)) = mset anns"
proof (induction ids arbitrary: anns)
  case Nil
  then show ?case by (cases anns) auto
next
  case (Cons j ids)
  let ?rest = "filter (\<lambda>a. ann_image_id a \<noteq> j) anns"
  have same: "map (\<lambda>i. filter (\<lambda>a. ann_image_id a = i) anns) ids
            = map (\<lambda>i. filter (\<lambda>a. ann_image_id a = i) ?rest) ids"
    using Cons.prems(1) by (auto intro!: filter_cong)
  have "\<forall>a \<in> set ?rest. ann_image_id a \<in> set ids" using Cons.prems(2) by auto
  with Cons.IH[of ?rest] Cons.prems(1)
  have "mset (concat (map (\<lambda>i. filter (\<lambda>a. ann_image_id a = i) ?rest) ids)) = mset ?rest" by simp
  then show ?case by (simp add: same)
qed

lemma load_annotations_valid:
  assumes "distinct (map img_id (doc_images doc))"
  shows "load_annotations doc info = info @
     map (\<lambda>i. \<lparr>ir_id = img_id i, ir_file_name = img_file_name i,
                ir_annotations = filter (\<lambda>a. ann_image_id a = img_id i) (doc_annotations doc)\<rparr>)
       (doc_images doc)"
  by (simp add: load_annotations_def img_id_to_name_distinct[OF assms] get_anns_by_img o_def)

text \<open>
  Claim C1. For a valid document, \<^verbatim>\<open>load_annotations\<close> yields one record per entry of
  the image list, in the order of that list and with its id and file name; the
  annotation lists of the records together hold every annotation of the document exactly
  once (as multisets they add up to the input list); and each record holds the
  annotations that refer to its image, in their order in the document.
\<close>

theorem load_annotations_partition:
  assumes "valid_coco doc"
  shows "map (\<lambda>r. (ir_id r, ir_file_name r)) (load_annotations doc [])
           = map (\<lambda>i. (img_id i, img_file_name i)) (doc_images doc)
       \<and> mset (concat (map ir_annotations (load_annotations doc []))) = mset (doc_annotations doc)
       \<and> (\<forall>r \<in> set (load_annotations doc []).
            ir_annotations r = filter (\<lambda>a. ann_image_id a = ir_id r) (doc_annotations doc))"
proof -
  from assms have d: "distinct (map img_id (doc_images doc))"
    and r: "\<forall>a \<in> set (doc_annotations doc). ann_image_id a \<in> set (map img_id (doc_images doc))"
    by (simp_all add: valid_coco_def)
  note eq = load_annotations_valid[OF d, of "[]"]
  have one: "map (\<lambda>r. (ir_id r, ir_file_name r)) (load_annotations doc [])
           = map (\<lambda>i. (img_id i, img_file_name i)) (doc_images doc)"
    by (simp add: eq o_def)
  have "concat (map ir_annotations (load_annotations doc []))
      = concat (map (\<lambda>j. filter (\<lambda>a. ann_image_id a = j) (doc_annotations doc))
                 (map img_id (doc_images doc)))"
    by (simp add: eq o_def)
  then have all: "mset (concat (map ir_annotations (load_annotations doc []))) = mset (doc_annotations doc)"
    using mset_partition_by_id[OF d r] by simp
  have each: "\<forall>r \<in> set (load_annotations doc []).
            ir_annotations r = filter (\<lambda>a. ann_image_id a = ir_id r) (doc_annotations doc)"
    by (auto simp: eq)
  from one all each show ?thesis by blast
qed

theorem load_annotations_partition_witness:
  "valid_coco example_doc
   \<and> map (\<lambda>r. (ir_id r, ir_file_name r)) (load_annotations example_doc [])
           = map (\<lambda>i. (img_id i, img_file_name i)) (doc_images example_doc)
   \<and> mset (concat (map ir_annotations (load_annotations example_doc [])))
           = mset (doc_annotations example_doc)
   \<and> map (\<lambda>r. map ann_id (ir_annotations r)) (load_annotations example_doc []) = [[2], [1, 3]]"
proof -
  have v: "valid_coco example_doc"
    by (simp add: valid_coco_def example_doc_def)
  have l: "map (\<lambda>r. map ann_id (ir_annotations r)) (load_annotations example_doc []) = [[2], [1, 3]]"
    by (simp add: load_annotations_def example_doc_def img_id_to_name_def anns_by_img_def
        group_step_def dict_has_def dict_keys_def dict_get_default_def)
  from v l load_annotations_partition[OF v] show ?thesis by blast
qed

end
